theory Spec2Isabelle
  imports Complex_Main "HOL-Library.AList"
begin

section \<open>Python values, dictionaries and exceptions\<close>

text \<open>
  A session is a Python \<^verbatim>\<open>dict\<close> with string keys and values of any type
  (\<^verbatim>\<open>update_session\<close> stores whatever its keyword arguments carry). The values that
  occur are modelled by \<open>pyval\<close>:
  \<^item> \<open>VTime t\<close> is an aware \<^verbatim>\<open>datetime\<close>, \<open>t\<close> its microseconds since the epoch
    (the resolution of \<^verbatim>\<open>datetime\<close>);
  \<^item> \<open>VObj h n\<close> is any other object (a DataFrame, a dict, a list), \<open>n\<close> its identity
    and \<open>h\<close> whether it is hashable; it is equal to no string.

  A \<^verbatim>\<open>dict\<close> keeps insertion order, so it is an association list:
  \<^verbatim>\<open>d[k] = v\<close> is \<open>AList.update k v d\<close> (an existing key keeps its place, a new one is
  appended), \<^verbatim>\<open>del d[k]\<close> is \<open>AList.delete k d\<close>, \<^verbatim>\<open>d[k]\<close> is \<open>map_of d k\<close>,
  with \<open>None\<close> where Python raises \<^verbatim>\<open>KeyError\<close>.
\<close>

datatype pyval =
    VNone
  | VBool bool
  | VInt int
  | VStr string
  | VTime int
  | VObj bool nat

type_synonym pydict = "(string \<times> pyval) list"

text \<open>
  Exceptions are values. \<open>LibError m\<close> is an exception raised inside a library call
  (pandas, chardet, a codec) with message \<open>m\<close>. \<open>FileReadError filename file_type prefix cause\<close>
  is \<^verbatim>\<open>FileReadError(filename, file_type, prefix + str(cause))\<close>: the model keeps the
  exception \<open>cause\<close> whose text the source records. \<open>DataFrameValidationError\<close> carries
  \<^verbatim>\<open>detail, row_count, col_count, min_rows, max_rows, min_cols, max_cols\<close>.
\<close>

datatype pyerror =
    KeyError
  | TypeError
  | LibError string
  | HTTPException int string
  | FileReadError string string string pyerror
  | DataFrameValidationError string int int int int int int

text \<open>
  \<^verbatim>\<open>for key, value in other.items(): d[key] = value\<close>, which is also
  \<^verbatim>\<open>d.update(other)\<close>: the assignments of \<open>other\<close>, in its order.
\<close>

definition dict_update :: "pydict \<Rightarrow> pydict \<Rightarrow> pydict" where
  "dict_update d other = fold (\<lambda>(key, v) s. AList.update key v s) other d"

section \<open>The session store (app/utils/session\_security.py)\<close>

text \<open>
  \<^verbatim>\<open>self.sessions\<close> maps a session id to its session dict, \<^verbatim>\<open>self.client_sessions\<close>
  maps a client to the list of its session ids. Every method takes the store and returns
  its result with the store it leaves behind; an exception leaves the mutations made
  before it. The readings of the clock (\<^verbatim>\<open>datetime.now(timezone.utc)\<close>) and the
  token drawn by \<^verbatim>\<open>secrets.token_urlsafe(32)\<close> are arguments. Logging is left out.
\<close>

record store =
  sessions :: "(string \<times> pydict) list"
  client_sessions :: "(string \<times> string list) list"

definition create_session ::
  "store \<Rightarrow> string \<Rightarrow> int \<Rightarrow> int \<Rightarrow> string \<Rightarrow> string \<Rightarrow> string \<Rightarrow> string \<times> store" where
  "create_session st token now_created now_access client_ip filename filetype =
     (let session_id = token;
          session_data =
            [(''session_id'', VStr session_id),
             (''client_ip'', VStr client_ip),
             (''filename'', VStr filename),
             (''filetype'', VStr filetype),
             (''created_time'', VTime now_created),
             (''last_access_time'', VTime now_access),
             (''df'', VNone),
             (''row_count'', VInt 0),
             (''column_count'', VInt 0)];
          sessions1 = AList.update session_id session_data (sessions st);
          cs0 = client_sessions st;
          cs1 = (case map_of cs0 client_ip of
                   None \<Rightarrow> AList.update client_ip [session_id] cs0
                 | Some ids \<Rightarrow> AList.update client_ip (ids @ [session_id]) cs0)
      in (session_id, st\<lparr>sessions := sessions1, client_sessions := cs1\<rparr>))"

definition get_session ::
  "store \<Rightarrow> string \<Rightarrow> string \<Rightarrow> int \<Rightarrow> (pyerror + pydict option) \<times> store" where
  "get_session st session_id client_ip now =
     (case map_of (sessions st) session_id of
        None \<Rightarrow> (Inr None, st)
      | Some session \<Rightarrow>
          (case map_of session ''client_ip'' of
             None \<Rightarrow> (Inl KeyError, st)
           | Some owner \<Rightarrow>
               if owner \<noteq> VStr client_ip then (Inr None, st)
               else
                 let session' = AList.update ''last_access_time'' (VTime now) session
                 in (Inr (Some session'),
                     st\<lparr>sessions := AList.update session_id session' (sessions st)\<rparr>)))"

text \<open>
  \<^verbatim>\<open>if not session\<close> holds for \<^verbatim>\<open>None\<close> and for an empty dict. The dict returned by
  \<^verbatim>\<open>get_session\<close> is the object held in the store, so the assignments of the loop
  land in the store.
\<close>

definition update_session ::
  "store \<Rightarrow> string \<Rightarrow> string \<Rightarrow> (string \<times> pyval) list \<Rightarrow> int \<Rightarrow> (pyerror + bool) \<times> store" where
  "update_session st session_id client_ip updates now =
     (case get_session st session_id client_ip now of
        (Inl e, st1) \<Rightarrow> (Inl e, st1)
      | (Inr None, st1) \<Rightarrow> (Inr False, st1)
      | (Inr (Some session), st1) \<Rightarrow>
          if session = [] then (Inr False, st1)
          else
            let session' = dict_update session updates
            in (Inr True, st1\<lparr>sessions := AList.update session_id session' (sessions st1)\<rparr>))"

text \<open>
  \<^verbatim>\<open>self.client_sessions[client_ip].remove(session_id)\<close> removes the first occurrence
  and raises \<^verbatim>\<open>ValueError\<close>, which the source catches, when there is none: \<open>remove1\<close>.
\<close>

definition delete_session ::
  "store \<Rightarrow> string \<Rightarrow> string \<Rightarrow> int \<Rightarrow> (pyerror + bool) \<times> store" where
  "delete_session st session_id client_ip now =
     (case get_session st session_id client_ip now of
        (Inl e, st1) \<Rightarrow> (Inl e, st1)
      | (Inr None, st1) \<Rightarrow> (Inr False, st1)
      | (Inr (Some session), st1) \<Rightarrow>
          if session = [] then (Inr False, st1)
          else
            let sessions1 = AList.delete session_id (sessions st1);
                cs0 = client_sessions st1;
                cs1 = (case map_of cs0 client_ip of
                         None \<Rightarrow> cs0
                       | Some ids \<Rightarrow> AList.update client_ip (remove1 session_id ids) cs0)
            in (Inr True, st1\<lparr>sessions := sessions1, client_sessions := cs1\<rparr>))"

fun collect_sessions :: "(string \<times> pydict) list \<Rightarrow> string list \<Rightarrow> pydict list" where
  "collect_sessions ss [] = []"
| "collect_sessions ss (session_id # ids) =
     (case map_of ss session_id of
        None \<Rightarrow> collect_sessions ss ids
      | Some s \<Rightarrow> s # collect_sessions ss ids)"

definition get_client_sessions :: "store \<Rightarrow> string \<Rightarrow> pydict list" where
  "get_client_sessions st client_ip =
     (case map_of (client_sessions st) client_ip of
        None \<Rightarrow> []
      | Some ids \<Rightarrow> collect_sessions (sessions st) ids)"

definition get_total_sessions :: "store \<Rightarrow> nat" where
  "get_total_sessions st = length (sessions st)"

text \<open>
  The sweep. \<^verbatim>\<open>(now - t).total_seconds() > expiry_seconds\<close> compares a float with an
  int; with times in microseconds it is \<open>now - t > expiry_seconds * 1000000\<close>, which is
  what the float comparison decides for every age below \<open>2^33\<close> seconds. Subtracting
  anything but a \<^verbatim>\<open>datetime\<close> from \<^verbatim>\<open>now\<close> raises \<^verbatim>\<open>TypeError\<close>.

  The first loop collects the expired ids in the order of the dict.
\<close>

fun collect_expired ::
  "int \<Rightarrow> int \<Rightarrow> (string \<times> pydict) list \<Rightarrow> string list \<Rightarrow> pyerror + string list" where
  "collect_expired now expiry_seconds [] expired = Inr expired"
| "collect_expired now expiry_seconds ((session_id, session) # items) expired =
     (case map_of session ''last_access_time'' of
        None \<Rightarrow> Inl KeyError
      | Some (VTime t) \<Rightarrow>
          collect_expired now expiry_seconds items
            (if now - t > expiry_seconds * 1000000 then expired @ [session_id] else expired)
      | Some _ \<Rightarrow> Inl TypeError)"

text \<open>
  \<^verbatim>\<open>client_ip in self.client_sessions\<close> hashes the value read from the session:
  an unhashable one raises \<^verbatim>\<open>TypeError\<close>, and a value that is no string is no key
  of the index.
\<close>

definition remove_from_index ::
  "pyval \<Rightarrow> string \<Rightarrow> (string \<times> string list) list \<Rightarrow> pyerror + (string \<times> string list) list" where
  "remove_from_index owner session_id cs =
     (case owner of
        VObj False _ \<Rightarrow> Inl TypeError
      | VStr client_ip \<Rightarrow>
          (case map_of cs client_ip of
             None \<Rightarrow> Inr cs
           | Some ids \<Rightarrow> Inr (AList.update client_ip (remove1 session_id ids) cs))
      | _ \<Rightarrow> Inr cs)"

text \<open>
  The second loop. The log line of each removal reads \<^verbatim>\<open>session['created_time']\<close>
  after the session has been removed, and may raise there.
\<close>

fun remove_expired :: "int \<Rightarrow> string list \<Rightarrow> store \<Rightarrow> (pyerror + unit) \<times> store" where
  "remove_expired now [] st = (Inr (), st)"
| "remove_expired now (session_id # expired) st =
     (case map_of (sessions st) session_id of
        None \<Rightarrow> (Inl KeyError, st)
      | Some session \<Rightarrow>
          (case map_of session ''client_ip'' of
             None \<Rightarrow> (Inl KeyError, st)
           | Some owner \<Rightarrow>
               (case remove_from_index owner session_id (client_sessions st) of
                  Inl e \<Rightarrow> (Inl e, st)
                | Inr cs1 \<Rightarrow>
                    let st1 = st\<lparr>sessions := AList.delete session_id (sessions st),
                                 client_sessions := cs1\<rparr>
                    in (case map_of session ''created_time'' of
                          None \<Rightarrow> (Inl KeyError, st1)
                        | Some (VTime c) \<Rightarrow> remove_expired now expired st1
                        | Some _ \<Rightarrow> (Inl TypeError, st1)))))"

definition cleanup_expired_sessions :: "store \<Rightarrow> int \<Rightarrow> int \<Rightarrow> (pyerror + unit) \<times> store" where
  "cleanup_expired_sessions st expiry_seconds now =
     (case collect_expired now expiry_seconds (sessions st) [] of
        Inl e \<Rightarrow> (Inl e, st)
      | Inr expired \<Rightarrow> remove_expired now expired st)"

definition validate_session_access :: "store \<Rightarrow> string \<Rightarrow> string \<Rightarrow> int \<Rightarrow> (pyerror + bool) \<times> store" where
  "validate_session_access st session_id client_ip now =
     (case get_session st session_id client_ip now of
        (Inl e, st1) \<Rightarrow> (Inl e, st1)
      | (Inr r, st1) \<Rightarrow> (Inr (r \<noteq> None), st1))"

section \<open>Strings\<close>

text \<open>
  \<^verbatim>\<open>str.lower\<close>, \<^verbatim>\<open>str.startswith\<close> and \<^verbatim>\<open>str.endswith\<close> on strings of
  one-byte characters. Lowering touches the letters A to Z only; no character outside
  ASCII lowers to one of \<^verbatim>\<open>. c s v\<close>, which is all the source asks of a lowered name.
\<close>

definition lower_char :: "char \<Rightarrow> char" where
  "lower_char c =
     (let n = (of_char c :: nat) in if 65 \<le> n \<and> n \<le> 90 then char_of (n + 32) else c)"

definition lower :: "string \<Rightarrow> string" where
  "lower s = map lower_char s"

definition startswith :: "string \<Rightarrow> string \<Rightarrow> bool" where
  "startswith s p = (take (length p) s = p)"

definition endswith :: "string \<Rightarrow> string \<Rightarrow> bool" where
  "endswith s p = (length p \<le> length s \<and> drop (length s - length p) s = p)"

text \<open>Truthiness of an optional string and of an optional int.\<close>

definition truthy_str :: "string option \<Rightarrow> bool" where
  "truthy_str e = (case e of None \<Rightarrow> False | Some s \<Rightarrow> s \<noteq> [])"

definition truthy_int :: "int option \<Rightarrow> bool" where
  "truthy_int n = (case n of None \<Rightarrow> False | Some k \<Rightarrow> k \<noteq> 0)"

section \<open>Tables and library calls\<close>

text \<open>
  A DataFrame is its column labels (each as \<^verbatim>\<open>str(c)\<close> gives it) and its rows.
  \<^verbatim>\<open>df.shape\<close> is (rows, columns), \<^verbatim>\<open>df.empty\<close> holds when either is zero,
  \<^verbatim>\<open>len(df)\<close> is the number of rows.
\<close>

record dataframe =
  columns :: "string list"
  rows :: "string list list"

definition shape :: "dataframe \<Rightarrow> int \<times> int" where
  "shape df = (int (length (rows df)), int (length (columns df)))"

definition df_empty :: "dataframe \<Rightarrow> bool" where
  "df_empty df = (length (rows df) = 0 \<or> length (columns df) = 0)"

definition len_df :: "dataframe \<Rightarrow> int" where
  "len_df df = int (length (rows df))"

definition empty_DataFrame :: dataframe where
  "empty_DataFrame = \<lparr>columns = [], rows = []\<rparr>"

text \<open>
  The dict returned by \<^verbatim>\<open>chardet.detect\<close>: a field is \<open>None\<close> when the key is
  missing; the value under \<^verbatim>\<open>'encoding'\<close> may itself be \<^verbatim>\<open>None\<close>. The confidence
  is the exact value of the float.
\<close>

record detection =
  d_encoding :: "string option option"
  d_confidence :: "rat option"
  d_language :: "string option option"

text \<open>
  The calls into pandas, chardet and the codecs are parameters of the model. Bytes are
  strings of one-byte characters, an encoding argument is \<open>None\<close> or a name.
  \<^item> \<open>read_csv c enc\<close> is \<^verbatim>\<open>pd.read_csv(io.BytesIO(c), encoding=enc)\<close>;
  \<^item> \<open>read_csv_nrows c enc n\<close> adds \<^verbatim>\<open>nrows=n\<close>;
  \<^item> \<open>read_csv_errors c enc errs\<close> adds \<^verbatim>\<open>errors=errs\<close>;
  \<^item> \<open>read_csv_chunks c enc k\<close> adds \<^verbatim>\<open>chunksize=k\<close>: the call may raise, and
    otherwise gives the items of its iterator, each a chunk or the exception raised on
    reaching it;
  \<^item> \<open>read_excel c\<close> is \<^verbatim>\<open>pd.read_excel(io.BytesIO(c))\<close>;
  \<^item> \<open>pd_concat chunks\<close> is \<^verbatim>\<open>pd.concat(chunks, ignore_index=True)\<close>;
  \<^item> \<open>chardet_detect c\<close> is \<^verbatim>\<open>chardet.detect(c)\<close>;
  \<^item> \<open>decode_ignore c enc\<close> is \<^verbatim>\<open>c.decode(enc, errors='ignore')\<close>, a list of
    code points.
\<close>

record lib =
  read_csv :: "string \<Rightarrow> string option \<Rightarrow> pyerror + dataframe"
  read_csv_nrows :: "string \<Rightarrow> string option \<Rightarrow> int \<Rightarrow> pyerror + dataframe"
  read_csv_errors :: "string \<Rightarrow> string option \<Rightarrow> string \<Rightarrow> pyerror + dataframe"
  read_csv_chunks :: "string \<Rightarrow> string option \<Rightarrow> int \<Rightarrow> pyerror + (pyerror + dataframe) list"
  read_excel :: "string \<Rightarrow> pyerror + dataframe"
  pd_concat :: "dataframe list \<Rightarrow> pyerror + dataframe"
  chardet_detect :: "string \<Rightarrow> pyerror + detection"
  decode_ignore :: "string \<Rightarrow> string option \<Rightarrow> pyerror + nat list"

section \<open>Structural validation (app/utils/data\_validation.py)\<close>

fun str_nat :: "nat \<Rightarrow> string" where
  "str_nat n =
     (if n < 10 then [char_of (48 + n)] else str_nat (n div 10) @ [char_of (48 + n mod 10)])"

definition str_int :: "int \<Rightarrow> string" where
  "str_int i = (if i < 0 then CHR ''-'' # str_nat (nat (- i)) else str_nat (nat i))"

definition validate_dataframe ::
  "dataframe option \<Rightarrow> int \<Rightarrow> int \<Rightarrow> int \<Rightarrow> int \<Rightarrow> pyerror + unit" where
  "validate_dataframe df min_rows max_rows min_cols max_cols =
     (case df of
        None \<Rightarrow> Inl (HTTPException 400 ''Uploaded file is empty.'')
      | Some d \<Rightarrow>
          if df_empty d then Inl (HTTPException 400 ''Uploaded file is empty.'')
          else
            (case shape d of (nrows, ncols) \<Rightarrow>
               if nrows < min_rows \<or> ncols < min_cols then
                 Inl (HTTPException 400
                   (''File must have at least '' @ str_int min_rows @ '' row and ''
                      @ str_int min_cols @ '' column.''))
               else if nrows > max_rows then
                 Inl (HTTPException 400
                   (''File exceeds maximum allowed rows ('' @ str_int max_rows @ '').''))
               else if ncols > max_cols then
                 Inl (HTTPException 400
                   (''File exceeds maximum allowed columns ('' @ str_int max_cols @ '').''))
               else if list_ex (\<lambda>c. startswith c ''unnamed'') (columns d) then
                 Inl (HTTPException 400 ''File Appears to have missing or invalid headers.'')
               else Inr ()))"

section \<open>Parsing with encoding detection (app/handlers/file\_parser.py)\<close>

definition common_encodings :: "string list" where
  "common_encodings = [''utf-8'', ''latin-1'', ''iso-8859-1'', ''cp1252'', ''utf-16'']"

text \<open>
  The detection block: any exception of \<^verbatim>\<open>chardet.detect\<close> or of the parse under the
  detected encoding is swallowed, and the fallback list follows.
\<close>

definition try_detected :: "lib \<Rightarrow> string \<Rightarrow> (dataframe \<times> string option) option" where
  "try_detected L contents =
     (case chardet_detect L contents of
        Inl _ \<Rightarrow> None
      | Inr detected \<Rightarrow>
          let detected_encoding =
                (case d_encoding detected of None \<Rightarrow> Some ''utf-8'' | Some v \<Rightarrow> v);
              confidence = (case d_confidence detected of None \<Rightarrow> 0 | Some c \<Rightarrow> c)
          in if confidence > 7 / 10 then
               (case read_csv L contents detected_encoding of
                  Inr df \<Rightarrow> Some (df, detected_encoding)
                | Inl _ \<Rightarrow> None)
             else None)"

fun try_encodings :: "lib \<Rightarrow> string \<Rightarrow> string list \<Rightarrow> (dataframe \<times> string option) option" where
  "try_encodings L contents [] = None"
| "try_encodings L contents (enc # encs) =
     (case read_csv L contents (Some enc) of
        Inr df \<Rightarrow> Some (df, Some enc)
      | Inl _ \<Rightarrow> try_encodings L contents encs)"

text \<open>\<^verbatim>\<open>_parse_csv_with_encoding\<close> (an Isabelle name cannot start with an underscore).\<close>

definition parse_csv_with_encoding ::
  "lib \<Rightarrow> string \<Rightarrow> string option \<Rightarrow> pyerror + dataframe \<times> string option" where
  "parse_csv_with_encoding L contents encoding =
     (if truthy_str encoding then
        (case read_csv L contents encoding of
           Inr df \<Rightarrow> Inr (df, encoding)
         | Inl e \<Rightarrow>
             Inl (FileReadError ''CSV'' ''CSV''
                    (''Failed to parse with specified encoding '' @ [CHR 0x27]
                       @ (case encoding of Some enc \<Rightarrow> enc | None \<Rightarrow> []) @ [CHR 0x27] @ '': '') e))
      else
        (case try_detected L contents of
           Some r \<Rightarrow> Inr r
         | None \<Rightarrow>
             (case try_encodings L contents common_encodings of
                Some r \<Rightarrow> Inr r
              | None \<Rightarrow>
                  (case read_csv_errors L contents (Some ''utf-8'') ''replace'' of
                     Inr df \<Rightarrow> Inr (df, Some ''utf-8'')
                   | Inl e \<Rightarrow>
                       Inl (FileReadError ''CSV'' ''CSV''
                              ''Failed to parse CSV with any encoding. Last error: '' e)))))"

definition parse_file_contents ::
  "lib \<Rightarrow> string \<Rightarrow> string \<Rightarrow> string option \<Rightarrow> pyerror + dataframe \<times> string" where
  "parse_file_contents L filename contents encoding =
     (case (if endswith (lower filename) ''.csv'' then
              (case parse_csv_with_encoding L contents encoding of
                 Inr (df, detected_encoding) \<Rightarrow> Inr (df, ''CSV'')
               | Inl e \<Rightarrow> Inl (FileReadError filename ''CSV'' [] e))
            else
              (case read_excel L contents of
                 Inr df \<Rightarrow> Inr (df, ''XLSX'')
               | Inl e \<Rightarrow> Inl (FileReadError filename ''XLSX'' [] e)))
      of
        Inl e \<Rightarrow> Inl e
      | Inr (df, filetype) \<Rightarrow>
          (case validate_dataframe (Some df) 1 1000000 1 500 of
             Inr _ \<Rightarrow> Inr (df, filetype)
           | Inl e \<Rightarrow>
               (case (if \<not> df_empty df then shape df else (0, 0)) of
                  (row_count, col_count) \<Rightarrow>
                    Inl (DataFrameValidationError
                           (case e of HTTPException _ detail \<Rightarrow> detail | _ \<Rightarrow> [])
                           row_count col_count 1 1000000 1 500))))"

record encoding_info =
  info_encoding :: "string option"
  info_confidence :: rat
  info_language :: "string option"
  info_error :: "pyerror option"

definition detect_file_encoding :: "lib \<Rightarrow> string \<Rightarrow> encoding_info" where
  "detect_file_encoding L contents =
     (case chardet_detect L contents of
        Inr result \<Rightarrow>
          \<lparr>info_encoding = (case d_encoding result of None \<Rightarrow> Some ''unknown'' | Some v \<Rightarrow> v),
           info_confidence = (case d_confidence result of None \<Rightarrow> 0 | Some c \<Rightarrow> c),
           info_language = (case d_language result of None \<Rightarrow> Some ''unknown'' | Some v \<Rightarrow> v),
           info_error = None\<rparr>
      | Inl e \<Rightarrow>
          \<lparr>info_encoding = Some ''unknown'', info_confidence = 0,
           info_language = Some ''unknown'', info_error = Some e\<rparr>)"

section \<open>Sampling and chunked reading (app/handlers/large\_file\_processor.py)\<close>

text \<open>
  \<^verbatim>\<open>_count_csv_rows\<close>. The source computes
  \<^verbatim>\<open>int((len(contents) / len(contents[:sample_size])) * lines)\<close> in floats; the
  quotient is 1 or a division by 1024, so the floats are exact and the result is the
  integer quotient below for every input shorter than \<open>2^43\<close> bytes. Every exception
  (an unknown encoding, \<^verbatim>\<open>None\<close> as encoding) makes the estimate 0.
\<close>

definition count_csv_rows :: "lib \<Rightarrow> string \<Rightarrow> string option \<Rightarrow> int" where
  "count_csv_rows L contents encoding =
     (let sample_size = min 1024 (length contents) in
      case decode_ignore L (take sample_size contents) encoding of
        Inl _ \<Rightarrow> 0
      | Inr sample \<Rightarrow>
          let lines = count_list sample 10 in
          if lines > 0 then
            (if sample_size = 0 then 0
             else int ((length contents * lines) div sample_size))
          else 0)"

text \<open>
  The loop of \<^verbatim>\<open>_read_csv_in_chunks\<close> over the iterator, \<open>chunks\<close> the list
  built so far: the chunk is appended first, the length tested after.
\<close>

fun read_chunks_loop :: "(pyerror + dataframe) list \<Rightarrow> dataframe list \<Rightarrow> pyerror + dataframe list" where
  "read_chunks_loop [] chunks = Inr chunks"
| "read_chunks_loop (Inl e # items) chunks = Inl e"
| "read_chunks_loop (Inr chunk # items) chunks =
     (let chunks1 = chunks @ [chunk] in
      if length chunks1 > 100 then Inr chunks1 else read_chunks_loop items chunks1)"

definition read_csv_in_chunks :: "lib \<Rightarrow> string \<Rightarrow> int \<Rightarrow> string option \<Rightarrow> pyerror + dataframe" where
  "read_csv_in_chunks L contents chunk_size encoding =
     (case (case read_csv_chunks L contents encoding chunk_size of
              Inl e \<Rightarrow> Inl e
            | Inr items \<Rightarrow>
                (case read_chunks_loop items [] of
                   Inl e \<Rightarrow> Inl e
                 | Inr chunks \<Rightarrow>
                     if chunks \<noteq> [] then pd_concat L chunks else Inr empty_DataFrame))
      of
        Inr df \<Rightarrow> Inr df
      | Inl e \<Rightarrow> Inl (FileReadError ''CSV'' ''CSV'' ''Failed to read CSV in chunks: '' e))"

text \<open>
  \<^verbatim>\<open>_parse_large_csv\<close>. The encoding in use is the one given, or else the one
  \<^verbatim>\<open>detect_file_encoding\<close> reports.
\<close>

definition large_csv_encoding :: "lib \<Rightarrow> string \<Rightarrow> string option \<Rightarrow> string option" where
  "large_csv_encoding L contents encoding =
     (if \<not> truthy_str encoding then info_encoding (detect_file_encoding L contents)
      else encoding)"

definition enc_val :: "string option \<Rightarrow> pyval" where
  "enc_val e = (case e of None \<Rightarrow> VNone | Some s \<Rightarrow> VStr s)"

definition parse_large_csv ::
  "lib \<Rightarrow> string \<Rightarrow> int \<Rightarrow> int option \<Rightarrow> string option \<Rightarrow> pyerror + dataframe \<times> string \<times> pydict" where
  "parse_large_csv L contents chunk_size sample_rows encoding0 =
     (let encoding = large_csv_encoding L contents encoding0 in
      if truthy_int sample_rows then
        (case read_csv_nrows L contents encoding (case sample_rows of Some n \<Rightarrow> n | None \<Rightarrow> 0) of
           Inr df \<Rightarrow>
             Inr (df, ''CSV'',
                  [(''encoding'', enc_val encoding),
                   (''total_rows'', VInt (len_df df)),
                   (''is_sampled'', VBool True),
                   (''sample_size'', (case sample_rows of Some n \<Rightarrow> VInt n | None \<Rightarrow> VNone))])
         | Inl e \<Rightarrow> Inl (FileReadError ''CSV'' ''CSV'' ''Failed to sample CSV: '' e))
      else
        (case (let total_rows = count_csv_rows L contents encoding in
               if total_rows \<le> chunk_size then
                 (case parse_csv_with_encoding L contents encoding of
                    Inl e \<Rightarrow> Inl e
                  | Inr (df, detected_encoding) \<Rightarrow>
                      Inr (df, ''CSV'',
                           [(''encoding'', enc_val detected_encoding),
                            (''total_rows'', VInt total_rows),
                            (''is_chunked'', VBool False)]))
               else
                 (case read_csv_in_chunks L contents chunk_size encoding of
                    Inl e \<Rightarrow> Inl e
                  | Inr df \<Rightarrow>
                      Inr (df, ''CSV'',
                           [(''encoding'', enc_val encoding),
                            (''total_rows'', VInt total_rows),
                            (''is_chunked'', VBool True),
                            (''chunk_size'', VInt chunk_size)])))
         of
           Inr r \<Rightarrow> Inr r
         | Inl e \<Rightarrow> Inl (FileReadError ''CSV'' ''CSV'' ''Failed to parse large CSV: '' e)))"

definition parse_large_file ::
  "lib \<Rightarrow> string \<Rightarrow> string \<Rightarrow> int \<Rightarrow> int option \<Rightarrow> string option
     \<Rightarrow> pyerror + dataframe \<times> string \<times> pydict" where
  "parse_large_file L filename contents chunk_size sample_rows encoding =
     (let metadata =
            [(''chunk_size'', VInt chunk_size),
             (''sample_rows'', (case sample_rows of None \<Rightarrow> VNone | Some n \<Rightarrow> VInt n)),
             (''is_sampled'', VBool (sample_rows \<noteq> None))]
      in
      if endswith (lower filename) ''.csv'' then
        (case parse_large_csv L contents chunk_size sample_rows encoding of
           Inr (df, filetype, file_metadata) \<Rightarrow>
             Inr (df, filetype, dict_update metadata file_metadata)
         | Inl e \<Rightarrow> Inl (FileReadError filename ''CSV'' [] e))
      else
        (case read_excel L contents of
           Inr df \<Rightarrow>
             Inr (df, ''XLSX'', AList.update ''total_rows'' (VInt (len_df df)) metadata)
         | Inl e \<Rightarrow> Inl (FileReadError filename ''XLSX'' [] e)))"

section \<open>Notions used by the properties\<close>


text \<open>
  A record is expired at \<open>now\<close> when its last access lies more than
  \<open>expiry_seconds\<close> seconds back: the test of the sweep.
\<close>

definition expired :: "int \<Rightarrow> int \<Rightarrow> pydict \<Rightarrow> bool" where
  "expired now expiry_seconds s =
     (case map_of s ''last_access_time'' of
        Some (VTime t) \<Rightarrow> now - t > expiry_seconds * 1000000
      | _ \<Rightarrow> False)"

text \<open>
  The shape \<^verbatim>\<open>create_session\<close> gives a record: the owner is a string, the two
  timestamps are datetimes. A store is well formed when its two dicts have the keys of
  a dict (no key twice), every record has that shape and no index lists an id twice.
\<close>

definition wf_session :: "pydict \<Rightarrow> bool" where
  "wf_session s =
     ((case map_of s ''client_ip'' of Some (VStr _) \<Rightarrow> True | _ \<Rightarrow> False) \<and>
      (case map_of s ''last_access_time'' of Some (VTime _) \<Rightarrow> True | _ \<Rightarrow> False) \<and>
      (case map_of s ''created_time'' of Some (VTime _) \<Rightarrow> True | _ \<Rightarrow> False))"

definition wf_store :: "store \<Rightarrow> bool" where
  "wf_store st =
     (distinct (map fst (sessions st)) \<and>
      list_all (\<lambda>(k, s). wf_session s) (sessions st) \<and>
      list_all (\<lambda>(c, ids). distinct ids) (client_sessions st))"

text \<open>
  A store with two sessions: \<open>tokA\<close> of client 10.0.0.1, created and last read at second
  1, and \<open>tokB\<close> of client 10.0.0.2, created and last read at second 5000.
\<close>

definition ex_empty :: store where
  "ex_empty = \<lparr>sessions = [], client_sessions = []\<rparr>"

definition ex_recA :: pydict where
  "ex_recA =
     [(''session_id'', VStr ''tokA''), (''client_ip'', VStr ''10.0.0.1''),
      (''filename'', VStr ''a.csv''), (''filetype'', VStr ''CSV''),
      (''created_time'', VTime 1000000), (''last_access_time'', VTime 1000000),
      (''df'', VNone), (''row_count'', VInt 0), (''column_count'', VInt 0)]"

definition ex_recB :: pydict where
  "ex_recB =
     [(''session_id'', VStr ''tokB''), (''client_ip'', VStr ''10.0.0.2''),
      (''filename'', VStr ''b.csv''), (''filetype'', VStr ''CSV''),
      (''created_time'', VTime 5000000000), (''last_access_time'', VTime 5000000000),
      (''df'', VNone), (''row_count'', VInt 0), (''column_count'', VInt 0)]"

definition ex_store :: store where
  "ex_store =
     \<lparr>sessions = [(''tokA'', ex_recA), (''tokB'', ex_recB)],
      client_sessions = [(''10.0.0.1'', [''tokA'']), (''10.0.0.2'', [''tokB''])]\<rparr>"

text \<open>
  Stand-ins for the library, for evaluating the code on concrete inputs. \<open>ex_lib df items\<close>
  is the library on an input whose parse is the table \<open>df\<close> and whose chunk iterator
  yields \<open>items\<close>; \<open>ex_lib_enc ok df lossy\<close> is the library on an input that parses to
  \<open>df\<close> under the encodings \<open>ok\<close>, fails to decode under any other, and gives \<open>lossy\<close>
  when read with \<^verbatim>\<open>errors='replace'\<close>. Both detect ASCII with confidence 1, decode
  byte by byte, and concatenate chunks by appending their rows.
\<close>

definition ex_concat :: "dataframe list \<Rightarrow> pyerror + dataframe" where
  "ex_concat chunks =
     (case chunks of
        [] \<Rightarrow> Inl (LibError ''No objects to concatenate'')
      | c # _ \<Rightarrow> Inr \<lparr>columns = columns c, rows = concat (map rows chunks)\<rparr>)"

definition ex_detection :: detection where
  "ex_detection =
     \<lparr>d_encoding = Some (Some ''ascii''), d_confidence = Some 1, d_language = Some (Some [])\<rparr>"

definition ex_lib :: "dataframe \<Rightarrow> (pyerror + dataframe) list \<Rightarrow> lib" where
  "ex_lib df items =
     \<lparr>read_csv = (\<lambda>c enc. Inr df),
      read_csv_nrows = (\<lambda>c enc n. Inr (df\<lparr>rows := take (nat n) (rows df)\<rparr>)),
      read_csv_errors = (\<lambda>c enc errs. Inr df),
      read_csv_chunks = (\<lambda>c enc k. Inr items),
      read_excel = (\<lambda>c. Inl (LibError ''File is not a zip file'')),
      pd_concat = ex_concat,
      chardet_detect = (\<lambda>c. Inr ex_detection),
      decode_ignore = (\<lambda>c enc. Inr (map of_char c))\<rparr>"

definition ex_lib_enc :: "string list \<Rightarrow> dataframe \<Rightarrow> pyerror + dataframe \<Rightarrow> lib" where
  "ex_lib_enc ok df lossy =
     \<lparr>read_csv =
        (\<lambda>c enc. case enc of
                   None \<Rightarrow> Inl (LibError ''codec cannot decode byte'')
                 | Some e \<Rightarrow> if e \<in> set ok then Inr df
                             else Inl (LibError ''codec cannot decode byte'')),
      read_csv_nrows = (\<lambda>c enc n. Inl (LibError ''codec cannot decode byte'')),
      read_csv_errors = (\<lambda>c enc errs. lossy),
      read_csv_chunks = (\<lambda>c enc k. Inl (LibError ''codec cannot decode byte'')),
      read_excel = (\<lambda>c. Inl (LibError ''File is not a zip file'')),
      pd_concat = ex_concat,
      chardet_detect = (\<lambda>c. Inr ex_detection),
      decode_ignore = (\<lambda>c enc. Inr (map of_char c))\<rparr>"

text \<open>A CSV of two rows, and one whose first header is the placeholder \<^verbatim>\<open>Unnamed: 0\<close>.\<close>

definition ex_csv :: string where
  "ex_csv = ''id,a'' @ [CHR 0x0A] @ ''0,1'' @ [CHR 0x0A] @ ''2,3'' @ [CHR 0x0A]"

definition ex_df :: dataframe where
  "ex_df = \<lparr>columns = [''id'', ''a''], rows = [[''0'', ''1''], [''2'', ''3'']]\<rparr>"

definition ex_unnamed_csv :: string where
  "ex_unnamed_csv = ''Unnamed: 0,a'' @ [CHR 0x0A] @ ''0,1'' @ [CHR 0x0A]"

definition ex_unnamed_df :: dataframe where
  "ex_unnamed_df = \<lparr>columns = [''Unnamed: 0'', ''a''], rows = [[''0'', ''1'']]\<rparr>"

text \<open>A chunk of one row, as \<^verbatim>\<open>chunksize=1\<close> yields them.\<close>

definition ex_chunk :: dataframe where
  "ex_chunk = \<lparr>columns = [''id'', ''a''], rows = [[''0'', ''1'']]\<rparr>"


section \<open>Properties of the session store\<close>

subsection \<open>The example store\<close>

lemma ex_store_created:
  "snd (create_session
          (snd (create_session ex_empty ''tokA'' 1000000 1000000 ''10.0.0.1'' ''a.csv'' ''CSV''))
          ''tokB'' 5000000000 5000000000 ''10.0.0.2'' ''b.csv'' ''CSV'') = ex_store"
  by (simp add: create_session_def Let_def ex_empty_def ex_store_def ex_recA_def ex_recB_def)


lemma ex_store_lookup:
  "map_of (sessions ex_store) ''tokA'' = Some ex_recA"
  "map_of (sessions ex_store) ''tokB'' = Some ex_recB"
  "map_of (sessions ex_store) ''tokC'' = None"
  "map_of ex_recA ''client_ip'' = Some (VStr ''10.0.0.1'')"
  "map_of ex_recB ''client_ip'' = Some (VStr ''10.0.0.2'')"
  by (simp_all add: ex_store_def ex_recA_def ex_recB_def)


subsection \<open>Reading a session\<close>

text \<open>
  Claim C1. \<^verbatim>\<open>get_session\<close> returns a record exactly when the session exists and its
  owning client is the requester, and then it is the stored record with the access time
  refreshed. When the session is absent, and when it exists with another owner, the call
  gives the same outcome: \<^verbatim>\<open>None\<close>, with the store as it was.
\<close>

theorem get_session_isolation:
  "(\<forall>rec. fst (get_session st sid ip now) = Inr (Some rec) \<longleftrightarrow>
       (\<exists>s. map_of (sessions st) sid = Some s \<and> map_of s ''client_ip'' = Some (VStr ip) \<and>
            rec = AList.update ''last_access_time'' (VTime now) s)) \<and>
   (map_of (sessions st) sid = None \<or>
    (\<exists>s owner. map_of (sessions st) sid = Some s \<and> map_of s ''client_ip'' = Some owner \<and>
        owner \<noteq> VStr ip)
    \<longrightarrow> get_session st sid ip now = (Inr None, st))"
  by (auto simp: get_session_def Let_def split: option.splits if_splits)

theorem get_session_isolation_witness:
  "get_session ex_store ''tokB'' ''10.0.0.1'' 6000000000 = (Inr None, ex_store) \<and>
   get_session ex_store ''tokC'' ''10.0.0.1'' 6000000000 = (Inr None, ex_store) \<and>
   fst (get_session ex_store ''tokA'' ''10.0.0.1'' 6000000000) =
     Inr (Some (AList.update ''last_access_time'' (VTime 6000000000) ex_recA))"
proof -
  note l = ex_store_lookup
  from l(2,5) have 1: "get_session ex_store ''tokB'' ''10.0.0.1'' 6000000000 = (Inr None, ex_store)"
    using get_session_isolation[of ex_store "''tokB''" "''10.0.0.1''" 6000000000] by simp
  from l(3) have 2: "get_session ex_store ''tokC'' ''10.0.0.1'' 6000000000 = (Inr None, ex_store)"
    using get_session_isolation[of ex_store "''tokC''" "''10.0.0.1''" 6000000000] by simp
  from l(1,4) have 3: "fst (get_session ex_store ''tokA'' ''10.0.0.1'' 6000000000) =
     Inr (Some (AList.update ''last_access_time'' (VTime 6000000000) ex_recA))"
    using get_session_isolation[of ex_store "''tokA''" "''10.0.0.1''" 6000000000] by simp
  from 1 2 3 show ?thesis by simp
qed

subsection \<open>A refused update\<close>

text \<open>
  Claim C10. When \<^verbatim>\<open>update_session\<close> returns \<^verbatim>\<open>False\<close> the store it leaves is the
  store it was given: no field merged, no access time refreshed, both tables as before.
  It returns \<^verbatim>\<open>False\<close> when the session is absent and when the requester is not the
  owner.
\<close>

theorem update_session_false_unchanged:
  "(fst (update_session st sid ip updates now) = Inr False \<longrightarrow>
      snd (update_session st sid ip updates now) = st) \<and>
   (map_of (sessions st) sid = None \<or>
    (\<exists>s owner. map_of (sessions st) sid = Some s \<and> map_of s ''client_ip'' = Some owner \<and>
        owner \<noteq> VStr ip)
    \<longrightarrow> update_session st sid ip updates now = (Inr False, st))"
  by (auto simp: update_session_def get_session_def Let_def split: option.splits if_splits)

theorem update_session_false_unchanged_witness:
  "fst (update_session ex_store ''tokB'' ''10.0.0.1'' [(''df'', VObj False 1)] 6000000000)
     = Inr False \<and>
   snd (update_session ex_store ''tokB'' ''10.0.0.1'' [(''df'', VObj False 1)] 6000000000)
     = ex_store"
proof -
  have a: "fst (update_session ex_store ''tokB'' ''10.0.0.1'' [(''df'', VObj False 1)] 6000000000)
      = Inr False"
    by (simp add: update_session_def get_session_def ex_store_lookup)
  with update_session_false_unchanged
    [of ex_store "''tokB''" "''10.0.0.1''" "[(''df'', VObj False 1)]" 6000000000]
  show ?thesis by simp
qed

subsection \<open>The owning client of a record\<close>











subsection \<open>The expiry sweep\<close>


lemma set_update_subset: "set (AList.update k v al) \<subseteq> insert (k, v) (set al)"
  by (induction al) auto

lemma set_delete_subset: "set (AList.delete k al) \<subseteq> set al"
  by (auto simp: AList.delete_eq)




text \<open>A record last read \<open>expiry_seconds + 1\<close> seconds before \<open>now\<close> is expired.\<close>

lemma expired_one_second_over:
  "map_of s ''last_access_time'' = Some (VTime (now - (expiry_seconds + 1) * 1000000)) \<Longrightarrow>
   expired now expiry_seconds s"
  by (simp add: expired_def algebra_simps)



subsection \<open>Well-formed stores\<close>

text \<open>
  The empty store is well formed, and the operations keep a store well formed:
  \<^verbatim>\<open>create_session\<close> when the token is not yet in the index of the client,
  \<^verbatim>\<open>update_session\<close> when the fields leave the owner and the two timestamps alone,
  \<^verbatim>\<open>get_session\<close>, \<^verbatim>\<open>delete_session\<close> and the sweep always.
\<close>

lemma dict_update_simps:
  "dict_update d [] = d"
  "dict_update d ((k, v) # other) = dict_update (AList.update k v d) other"
  by (simp_all add: dict_update_def)

lemma wf_session_update:
  "wf_session s \<Longrightarrow> key \<notin> {''client_ip'', ''last_access_time'', ''created_time''} \<Longrightarrow>
   wf_session (AList.update key v s)"
  by (auto simp: wf_session_def update_conv')

lemma wf_session_touch:
  "wf_session s \<Longrightarrow> wf_session (AList.update ''last_access_time'' (VTime now) s)"
  by (auto simp: wf_session_def update_conv')

lemma wf_session_dict_update:
  "wf_session s \<Longrightarrow>
   fst ` set other \<inter> {''client_ip'', ''last_access_time'', ''created_time''} = {} \<Longrightarrow>
   wf_session (dict_update s other)"
proof (induction other arbitrary: s)
  case Nil
  then show ?case by (simp add: dict_update_def)
next
  case (Cons p other)
  obtain k v where p: "p = (k, v)" by (cases p)
  from Cons.prems(2) p have k: "k \<notin> {''client_ip'', ''last_access_time'', ''created_time''}"
    and o: "fst ` set other \<inter> {''client_ip'', ''last_access_time'', ''created_time''} = {}"
    by auto
  from Cons.IH[OF wf_session_update[OF Cons.prems(1) k] o, of v]
  show ?case by (simp add: p dict_update_simps)
qed

lemma list_all_update:
  "list_all P al \<Longrightarrow> P (k, v) \<Longrightarrow> list_all P (AList.update k v al)"
  using set_update_subset[of k v al] by (auto simp: list_all_iff)

lemma list_all_delete:
  "list_all P al \<Longrightarrow> list_all P (AList.delete k al)"
  using set_delete_subset[of k al] by (auto simp: list_all_iff)

lemma list_all_lookup:
  "list_all P al \<Longrightarrow> map_of al k = Some v \<Longrightarrow> P (k, v)"
  by (auto simp: list_all_iff dest: map_of_SomeD)

lemma wf_store_empty: "wf_store ex_empty"
  by (simp add: wf_store_def ex_empty_def)

lemma wf_store_create:
  assumes "wf_store st"
    and "case map_of (client_sessions st) client_ip of None \<Rightarrow> True | Some ids \<Rightarrow> token \<notin> set ids"
  shows "wf_store (snd (create_session st token t1 t2 client_ip filename filetype))"
proof -
  define session_data where "session_data =
    [(''session_id'', VStr token), (''client_ip'', VStr client_ip),
     (''filename'', VStr filename), (''filetype'', VStr filetype),
     (''created_time'', VTime t1), (''last_access_time'', VTime t2),
     (''df'', VNone), (''row_count'', VInt 0), (''column_count'', VInt 0)]"
  define ids1 where "ids1 = (case map_of (client_sessions st) client_ip of
     None \<Rightarrow> [token] | Some ids \<Rightarrow> ids @ [token])"
  have res: "snd (create_session st token t1 t2 client_ip filename filetype) =
     st\<lparr>sessions := AList.update token session_data (sessions st),
        client_sessions := AList.update client_ip ids1 (client_sessions st)\<rparr>"
    unfolding create_session_def Let_def session_data_def ids1_def
    by (cases "map_of (client_sessions st) client_ip") simp_all
  from assms(1) have d: "distinct (map fst (sessions st))"
    and w: "list_all (\<lambda>(k, s). wf_session s) (sessions st)"
    and c: "list_all (\<lambda>(c, ids). distinct ids) (client_sessions st)"
    by (simp_all add: wf_store_def)
  have "wf_session session_data"
    by (simp add: wf_session_def session_data_def)
  then have w1: "list_all (\<lambda>(k, s). wf_session s) (AList.update token session_data (sessions st))"
    using w by (simp add: list_all_update)
  have d1: "distinct (map fst (AList.update token session_data (sessions st)))"
    using d by (rule distinct_update)
  have "distinct ids1"
  proof (cases "map_of (client_sessions st) client_ip")
    case None
    then show ?thesis by (simp add: ids1_def)
  next
    case (Some ids)
    with c have "distinct ids"
      using list_all_lookup[of "\<lambda>(c, ids). distinct ids" "client_sessions st" client_ip ids]
      by simp
    with Some assms(2) show ?thesis by (simp add: ids1_def)
  qed
  then have c1: "list_all (\<lambda>(c, ids). distinct ids)
      (AList.update client_ip ids1 (client_sessions st))"
    using c by (simp add: list_all_update)
  show ?thesis
    unfolding res wf_store_def using d1 w1 c1 by simp
qed

lemma wf_store_get:
  assumes "wf_store st"
  shows "wf_store (snd (get_session st sid ip now))"
proof (cases "map_of (sessions st) sid")
  case None
  with assms show ?thesis by (simp add: get_session_def)
next
  case (Some s)
  with assms have "wf_session s"
    using list_all_lookup[of "\<lambda>(k, s). wf_session s" "sessions st" sid s]
    by (simp add: wf_store_def)
  then have "wf_session (AList.update ''last_access_time'' (VTime now) s)"
    by (rule wf_session_touch)
  with assms Some show ?thesis
    by (auto simp: get_session_def Let_def wf_store_def distinct_update list_all_update
        split: option.splits)
qed

lemma get_session_Some:
  "get_session st sid ip now = (Inr (Some s'), st1) \<Longrightarrow>
   map_of (sessions st1) sid = Some s'"
  by (auto simp: get_session_def Let_def update_conv' split: option.splits if_splits)

lemma wf_store_update:
  assumes "wf_store st"
    and "fst ` set updates \<inter> {''client_ip'', ''last_access_time'', ''created_time''} = {}"
  shows "wf_store (snd (update_session st sid ip updates now))"
proof -
  obtain r st1 where g: "get_session st sid ip now = (r, st1)" by (cases "get_session st sid ip now")
  with wf_store_get[OF assms(1), of sid ip now] have w1: "wf_store st1" by simp
  show ?thesis
  proof (cases r)
    case (Inl e)
    with g w1 show ?thesis by (simp add: update_session_def)
  next
    case (Inr opt)
    show ?thesis
    proof (cases opt)
      case None
      with g w1 Inr show ?thesis by (simp add: update_session_def)
    next
      case (Some s')
      with g Inr have "map_of (sessions st1) sid = Some s'" by (simp add: get_session_Some)
      with w1 have "wf_session s'"
        using list_all_lookup[of "\<lambda>(k, s). wf_session s" "sessions st1" sid s']
        by (simp add: wf_store_def)
      then have "wf_session (dict_update s' updates)"
        using assms(2) by (rule wf_session_dict_update)
      with g Inr Some w1 show ?thesis
        by (simp add: update_session_def Let_def wf_store_def distinct_update list_all_update)
    qed
  qed
qed

lemma wf_store_remove:
  assumes "wf_store st"
  shows "wf_store (st\<lparr>sessions := AList.delete sid (sessions st),
      client_sessions := (case map_of (client_sessions st) c of
         None \<Rightarrow> client_sessions st
       | Some ids \<Rightarrow> AList.update c (remove1 sid ids) (client_sessions st))\<rparr>)"
proof (cases "map_of (client_sessions st) c")
  case None
  with assms show ?thesis
    by (simp add: wf_store_def distinct_delete list_all_delete)
next
  case (Some ids)
  with assms have "distinct ids"
    using list_all_lookup[of "\<lambda>(c, ids). distinct ids" "client_sessions st" c ids]
    by (simp add: wf_store_def)
  then have "distinct (remove1 sid ids)" by simp
  with assms Some show ?thesis
    by (simp add: wf_store_def distinct_delete list_all_delete list_all_update)
qed

lemma wf_store_delete:
  assumes "wf_store st"
  shows "wf_store (snd (delete_session st sid ip now))"
proof -
  obtain r st1 where g: "get_session st sid ip now = (r, st1)" by (cases "get_session st sid ip now")
  with wf_store_get[OF assms(1), of sid ip now] have w1: "wf_store st1" by simp
  from wf_store_remove[OF w1, where sid=sid and c=ip] g w1 show ?thesis
    by (auto simp: delete_session_def Let_def split: sum.splits option.splits)
qed



lemma wf_store_remove_from_index:
  assumes "wf_store st" and "remove_from_index owner x (client_sessions st) = Inr cs1"
  shows "wf_store (st\<lparr>sessions := AList.delete x (sessions st), client_sessions := cs1\<rparr>)"
proof (cases owner)
  case (VStr c)
  with assms(2) have "cs1 = (case map_of (client_sessions st) c of
         None \<Rightarrow> client_sessions st
       | Some ids \<Rightarrow> AList.update c (remove1 x ids) (client_sessions st))"
    by (simp add: remove_from_index_def split: option.splits)
  with wf_store_remove[OF assms(1), where sid=x and c=c] show ?thesis by simp
next
  case (VObj h n)
  with assms(2) have "cs1 = client_sessions st"
    by (cases h) (simp_all add: remove_from_index_def)
  with assms(1) show ?thesis
    by (simp add: wf_store_def distinct_delete list_all_delete)
qed (use assms in \<open>simp_all add: remove_from_index_def wf_store_def distinct_delete
      list_all_delete\<close>)

lemma wf_store_remove_expired:
  "wf_store st \<Longrightarrow> wf_store (snd (remove_expired now xs st))"
proof (induction xs arbitrary: st)
  case Nil
  then show ?case by simp
next
  case (Cons x xs)
  show ?case
  proof (cases "map_of (sessions st) x")
    case None
    with Cons.prems show ?thesis by simp
  next
    case (Some session)
    note S = this
    show ?thesis
    proof (cases "map_of session ''client_ip''")
      case None
      with Cons.prems S show ?thesis by simp
    next
      case (Some owner)
      note O = this
      show ?thesis
      proof (cases "remove_from_index owner x (client_sessions st)")
        case (Inl e)
        with Cons.prems S O show ?thesis by simp
      next
        case (Inr cs1)
        let ?st1 = "st\<lparr>sessions := AList.delete x (sessions st), client_sessions := cs1\<rparr>"
        have w1: "wf_store ?st1"
          using Cons.prems Inr by (rule wf_store_remove_from_index)
        then have w2: "wf_store (snd (remove_expired now xs ?st1))"
          by (rule Cons.IH)
        show ?thesis
        proof (cases "map_of session ''created_time''")
          case None
          with S O Inr w1 show ?thesis by simp
        next
          case (Some v)
          with S O Inr w1 w2 show ?thesis by (cases v) simp_all
        qed
      qed
    qed
  qed
qed

lemma wf_store_sweep:
  "wf_store st \<Longrightarrow> wf_store (snd (cleanup_expired_sessions st e now))"
  by (simp add: cleanup_expired_sessions_def wf_store_remove_expired split: sum.splits)

section \<open>Properties of ingestion\<close>

subsection \<open>Placeholder headers\<close>

lemma csv_name: "endswith (lower ''data.csv'') ''.csv''"
  by (simp add: endswith_def lower_def lower_char_def)

text \<open>
  What the header test does reject: a column whose name starts with the lower-case word,
  in a table within the bounds. The failure carries the measured counts and the bounds.
\<close>

lemma validate_dataframe_lower_unnamed:
  assumes "rows df \<noteq> []" "length (rows df) \<le> 1000000"
    and "columns df \<noteq> []" "length (columns df) \<le> 500"
    and "list_ex (\<lambda>c. startswith c ''unnamed'') (columns df)"
  shows "validate_dataframe (Some df) 1 1000000 1 500
     = Inl (HTTPException 400 ''File Appears to have missing or invalid headers.'')"
proof -
  from assms(1,3) have "0 < length (rows df)" "0 < length (columns df)" by simp_all
  with assms show ?thesis
    by (simp add: validate_dataframe_def df_empty_def shape_def)
qed

text \<open>What it lets through: any table within the bounds with no such column.\<close>

lemma validate_dataframe_accepts:
  assumes "rows df \<noteq> []" "length (rows df) \<le> 1000000"
    and "columns df \<noteq> []" "length (columns df) \<le> 500"
    and "\<not> list_ex (\<lambda>c. startswith c ''unnamed'') (columns df)"
  shows "validate_dataframe (Some df) 1 1000000 1 500 = Inr ()"
proof -
  from assms(1,3) have "0 < length (rows df)" "0 < length (columns df)" by simp_all
  with assms show ?thesis
    by (simp add: validate_dataframe_def df_empty_def shape_def)
qed

lemma Unnamed_not_unnamed: "\<not> startswith ''Unnamed: 0'' ''unnamed''"
  by (simp add: startswith_def)

text \<open>
  Claim C3 says that a table with a column named \<^verbatim>\<open>Unnamed: 0\<close> never passes
  \<^verbatim>\<open>parse_file_contents\<close>. The code tests \<^verbatim>\<open>str(c).startswith("unnamed")\<close>, in
  lower case, while the placeholder starts with a capital: the table below, read from a
  CSV with that header, passes validation and is returned.
\<close>

theorem parse_file_contents_accepts_Unnamed:
  "validate_dataframe (Some ex_unnamed_df) 1 1000000 1 500 = Inr () \<and>
   parse_file_contents (ex_lib ex_unnamed_df []) ''data.csv'' ex_unnamed_csv None
     = Inr (ex_unnamed_df, ''CSV'')"
proof -
  have v: "validate_dataframe (Some ex_unnamed_df) 1 1000000 1 500 = Inr ()"
    by (rule validate_dataframe_accepts)
       (simp_all add: ex_unnamed_df_def startswith_def)
  have p: "parse_csv_with_encoding (ex_lib ex_unnamed_df []) ex_unnamed_csv None
      = Inr (ex_unnamed_df, Some ''ascii'')"
    by (simp add: parse_csv_with_encoding_def truthy_str_def try_detected_def ex_lib_def
        ex_detection_def)
  show ?thesis
    by (simp add: parse_file_contents_def csv_name p v)
qed

subsection \<open>The chunk cap\<close>

lemma read_chunks_loop_take:
  "length acc \<le> 100 \<Longrightarrow>
   read_chunks_loop (map Inr cs) acc = Inr (acc @ take (101 - length acc) cs)"
proof (induction cs arbitrary: acc)
  case Nil
  then show ?case by simp
next
  case (Cons c cs)
  show ?case
  proof (cases "length acc = 100")
    case True
    then show ?thesis by simp
  next
    case False
    with Cons.prems have l: "length (acc @ [c]) \<le> 100" by simp
    from False Cons.prems have s: "101 - length acc = Suc (100 - length acc)" by simp
    from False Cons.prems Cons.IH[OF l] show ?thesis
      by (simp add: s)
  qed
qed

text \<open>The loop never hands on more than 101 chunks.\<close>

lemma read_chunks_loop_length:
  "read_chunks_loop items acc = Inr chunks \<Longrightarrow> length acc \<le> 100 \<Longrightarrow> length chunks \<le> 101"
proof (induction items acc rule: read_chunks_loop.induct)
  case (1 chunks')
  then show ?case by simp
next
  case (2 e items chunks')
  then show ?case by simp
next
  case (3 chunk items chunks')
  show ?case
  proof (cases "length (chunks' @ [chunk]) > 100")
    case True
    with "3.prems" show ?thesis by (auto simp: Let_def)
  next
    case False
    with "3.prems" have "read_chunks_loop items (chunks' @ [chunk]) = Inr chunks"
      by (simp add: Let_def)
    moreover from False have "length (chunks' @ [chunk]) \<le> 100" by simp
    ultimately show ?thesis using "3.IH" False by simp
  qed
qed

text \<open>
  Claim C4 says the table is assembled from at most 100 chunks, at most
  \<open>100 \<times> chunk_size\<close> rows. The loop appends the chunk before it tests
  \<^verbatim>\<open>len(chunks) > 100\<close>, so it stops with 101 chunks: read with \<^verbatim>\<open>chunk_size=1\<close>, an
  input of 150 rows gives a table of 101 rows, where the comment in the source
  (\<^verbatim>\<open>Max 1M rows (100 * 10k)\<close>) and the claim allow 100. It does stop silently, with
  the truncated table.
\<close>

theorem read_csv_in_chunks_101:
  "read_csv_in_chunks (ex_lib ex_chunk (replicate 150 (Inr ex_chunk))) ex_csv 1
     (Some ''utf-8'')
     = Inr \<lparr>columns = [''id'', ''a''], rows = replicate 101 [''0'', ''1'']\<rparr> \<and>
   length (replicate 101 [''0'', ''1'']) = 100 * 1 + 1"
proof -
  have l: "read_chunks_loop (replicate 150 (Inr ex_chunk)) [] = Inr (replicate 101 ex_chunk)"
    using read_chunks_loop_take[of "[]" "replicate 150 ex_chunk"] by simp
  have c: "concat (map rows (replicate n ex_chunk)) = replicate n [''0'', ''1'']" for n
    by (induction n) (simp_all add: ex_chunk_def)
  have "ex_concat (replicate (Suc n) ex_chunk)
      = Inr \<lparr>columns = [''id'', ''a''], rows = replicate (Suc n) [''0'', ''1'']\<rparr>" for n
    using c[of "Suc n"] by (simp add: ex_concat_def ex_chunk_def)
  from this[of 100] have e: "ex_concat (replicate 101 ex_chunk)
      = Inr \<lparr>columns = [''id'', ''a''], rows = replicate 101 [''0'', ''1'']\<rparr>"
    by simp
  have n: "replicate 101 ex_chunk \<noteq> []" by simp
  have "read_csv_in_chunks (ex_lib ex_chunk (replicate 150 (Inr ex_chunk))) ex_csv 1
     (Some ''utf-8'')
     = Inr \<lparr>columns = [''id'', ''a''], rows = replicate 101 [''0'', ''1'']\<rparr>"
    unfolding read_csv_in_chunks_def ex_lib_def using l e n by simp
  then show ?thesis by simp
qed

subsection \<open>Encodings\<close>




text \<open>
  Claim C7. With an encoding given (a non-empty string: the source tests its truth
  value), the call is the one parse under that encoding: its table with that encoding
  reported, or a read error holding its exception. Detection and the candidate list play
  no part, and \<^verbatim>\<open>parse_file_contents\<close> hands the failure on as its read error.
\<close>

theorem parse_csv_explicit_encoding:
  assumes "truthy_str encoding"
  shows
    "parse_csv_with_encoding L contents encoding =
       (case read_csv L contents encoding of
          Inr df \<Rightarrow> Inr (df, encoding)
        | Inl e \<Rightarrow>
            Inl (FileReadError ''CSV'' ''CSV''
                   (''Failed to parse with specified encoding '' @ [CHR 0x27]
                      @ (case encoding of Some enc \<Rightarrow> enc | None \<Rightarrow> []) @ [CHR 0x27] @ '': '')
                   e)) \<and>
     (endswith (lower filename) ''.csv'' \<and> isl (read_csv L contents encoding) \<longrightarrow>
        parse_file_contents L filename contents encoding =
          Inl (FileReadError filename ''CSV'' []
                 (FileReadError ''CSV'' ''CSV''
                    (''Failed to parse with specified encoding '' @ [CHR 0x27]
                       @ (case encoding of Some enc \<Rightarrow> enc | None \<Rightarrow> []) @ [CHR 0x27] @ '': '')
                    (projl (read_csv L contents encoding)))))"
  using assms
  by (auto simp: parse_csv_with_encoding_def parse_file_contents_def split: sum.splits)

theorem parse_csv_explicit_encoding_witness:
  "parse_csv_with_encoding (ex_lib_enc [''latin-1''] ex_df (Inr ex_df)) ex_csv (Some ''latin-1'')
     = Inr (ex_df, Some ''latin-1'') \<and>
   parse_csv_with_encoding (ex_lib_enc [''latin-1''] ex_df (Inr ex_df)) ex_csv (Some ''utf-8'')
     = Inl (FileReadError ''CSV'' ''CSV''
              (''Failed to parse with specified encoding '' @ [CHR 0x27] @ ''utf-8''
                 @ [CHR 0x27] @ '': '')
              (LibError ''codec cannot decode byte'')) \<and>
   parse_file_contents (ex_lib_enc [''latin-1''] ex_df (Inr ex_df)) ''data.csv'' ex_csv
       (Some ''utf-8'')
     = Inl (FileReadError ''data.csv'' ''CSV'' []
              (FileReadError ''CSV'' ''CSV''
                 (''Failed to parse with specified encoding '' @ [CHR 0x27] @ ''utf-8''
                    @ [CHR 0x27] @ '': '')
                 (LibError ''codec cannot decode byte'')))"
proof -
  have a: "truthy_str (Some ''latin-1'')" and b: "truthy_str (Some ''utf-8'')"
    by (simp_all add: truthy_str_def)
  have r1: "read_csv (ex_lib_enc [''latin-1''] ex_df (Inr ex_df)) ex_csv (Some ''latin-1'')
      = Inr ex_df"
    and r2: "read_csv (ex_lib_enc [''latin-1''] ex_df (Inr ex_df)) ex_csv (Some ''utf-8'')
      = Inl (LibError ''codec cannot decode byte'')"
    by (simp_all add: ex_lib_enc_def)
  from parse_csv_explicit_encoding[OF a, of "ex_lib_enc [''latin-1''] ex_df (Inr ex_df)" ex_csv
      "''data.csv''"]
    parse_csv_explicit_encoding[OF b, of "ex_lib_enc [''latin-1''] ex_df (Inr ex_df)" ex_csv
      "''data.csv''"]
    r1 r2 csv_name
  show ?thesis by simp
qed

subsection \<open>Sampling and the chunking decision\<close>

text \<open>
  Without sampling (\<^verbatim>\<open>sample_rows\<close> is \<^verbatim>\<open>None\<close> or 0) the estimate decides between the
  two readers, and the metadata is the one below.
\<close>

lemma parse_large_file_unsampled:
  assumes "endswith (lower filename) ''.csv''" and "\<not> truthy_int sample_rows"
  shows
    "(count_csv_rows L contents (large_csv_encoding L contents encoding) \<le> chunk_size \<longrightarrow>
        parse_large_file L filename contents chunk_size sample_rows encoding =
          (case parse_csv_with_encoding L contents (large_csv_encoding L contents encoding) of
             Inr (df, detected_encoding) \<Rightarrow>
               Inr (df, ''CSV'',
                    [(''chunk_size'', VInt chunk_size),
                     (''sample_rows'', (case sample_rows of None \<Rightarrow> VNone | Some n \<Rightarrow> VInt n)),
                     (''is_sampled'', VBool (sample_rows \<noteq> None)),
                     (''encoding'', enc_val detected_encoding),
                     (''total_rows'',
                        VInt (count_csv_rows L contents (large_csv_encoding L contents encoding))),
                     (''is_chunked'', VBool False)])
           | Inl e \<Rightarrow>
               Inl (FileReadError filename ''CSV'' []
                      (FileReadError ''CSV'' ''CSV'' ''Failed to parse large CSV: '' e)))) \<and>
     (count_csv_rows L contents (large_csv_encoding L contents encoding) > chunk_size \<longrightarrow>
        parse_large_file L filename contents chunk_size sample_rows encoding =
          (case read_csv_in_chunks L contents chunk_size (large_csv_encoding L contents encoding) of
             Inr df \<Rightarrow>
               Inr (df, ''CSV'',
                    [(''chunk_size'', VInt chunk_size),
                     (''sample_rows'', (case sample_rows of None \<Rightarrow> VNone | Some n \<Rightarrow> VInt n)),
                     (''is_sampled'', VBool (sample_rows \<noteq> None)),
                     (''encoding'', enc_val (large_csv_encoding L contents encoding)),
                     (''total_rows'',
                        VInt (count_csv_rows L contents (large_csv_encoding L contents encoding))),
                     (''is_chunked'', VBool True)])
           | Inl e \<Rightarrow>
               Inl (FileReadError filename ''CSV'' []
                      (FileReadError ''CSV'' ''CSV'' ''Failed to parse large CSV: '' e))))"
  using assms
  by (auto simp: parse_large_file_def parse_large_csv_def Let_def dict_update_simps
      split: sum.splits prod.splits)

text \<open>
  With \<^verbatim>\<open>sample_rows\<close> a number other than 0 the call is the one read with
  \<^verbatim>\<open>nrows\<close>: no estimate, no chunked read, and the metadata says so.
\<close>

lemma parse_large_file_sampled:
  assumes "endswith (lower filename) ''.csv''" and "sample_rows = Some n" and "n \<noteq> 0"
  shows
    "parse_large_file L filename contents chunk_size sample_rows encoding =
       (case read_csv_nrows L contents (large_csv_encoding L contents encoding) n of
          Inr df \<Rightarrow>
            Inr (df, ''CSV'',
                 [(''chunk_size'', VInt chunk_size),
                  (''sample_rows'', VInt n),
                  (''is_sampled'', VBool True),
                  (''encoding'', enc_val (large_csv_encoding L contents encoding)),
                  (''total_rows'', VInt (len_df df)),
                  (''sample_size'', VInt n)])
        | Inl e \<Rightarrow>
            Inl (FileReadError filename ''CSV'' []
                   (FileReadError ''CSV'' ''CSV'' ''Failed to sample CSV: '' e)))"
  using assms
  by (auto simp: parse_large_file_def parse_large_csv_def Let_def dict_update_simps truthy_int_def
      split: sum.splits prod.splits)

lemma ex_count: "count_csv_rows (ex_lib df items) ex_csv enc = 3"
  by (simp add: count_csv_rows_def ex_lib_def ex_csv_def)

lemma ex_enc: "large_csv_encoding (ex_lib df items) c None = Some ''ascii''"
  by (simp add: large_csv_encoding_def truthy_str_def detect_file_encoding_def ex_lib_def ex_detection_def)

text \<open>
  Claim C8. For a CSV read without sampling: when the estimated row count is at most
  \<open>chunk_size\<close>, the call succeeds exactly when the one-pass parse does, returns its
  table and reports \<^verbatim>\<open>is_chunked=False\<close>; when the estimate is larger, it succeeds
  exactly when the chunked read does, returns its table and reports
  \<^verbatim>\<open>is_chunked=True\<close> with the \<open>chunk_size\<close> used.
\<close>

theorem parse_large_file_chunk_decision:
  assumes "endswith (lower filename) ''.csv''" and "\<not> truthy_int sample_rows"
  shows
    "(count_csv_rows L contents (large_csv_encoding L contents encoding) \<le> chunk_size \<longrightarrow>
        (case parse_large_file L filename contents chunk_size sample_rows encoding of
           Inr (df, filetype, metadata) \<Rightarrow>
             (\<exists>d. parse_csv_with_encoding L contents (large_csv_encoding L contents encoding)
                    = Inr (df, d)) \<and>
             map_of metadata ''is_chunked'' = Some (VBool False)
         | Inl e \<Rightarrow>
             isl (parse_csv_with_encoding L contents (large_csv_encoding L contents encoding)))) \<and>
     (count_csv_rows L contents (large_csv_encoding L contents encoding) > chunk_size \<longrightarrow>
        (case parse_large_file L filename contents chunk_size sample_rows encoding of
           Inr (df, filetype, metadata) \<Rightarrow>
             read_csv_in_chunks L contents chunk_size (large_csv_encoding L contents encoding)
               = Inr df \<and>
             map_of metadata ''is_chunked'' = Some (VBool True) \<and>
             map_of metadata ''chunk_size'' = Some (VInt chunk_size)
         | Inl e \<Rightarrow>
             isl (read_csv_in_chunks L contents chunk_size
                    (large_csv_encoding L contents encoding))))"
  using parse_large_file_unsampled[OF assms, of L contents encoding chunk_size]
  by (auto split: sum.splits prod.splits)

theorem parse_large_file_chunk_decision_witness:
  "parse_large_file (ex_lib ex_df []) ''data.csv'' ex_csv 10000 None None =
     Inr (ex_df, ''CSV'',
          [(''chunk_size'', VInt 10000), (''sample_rows'', VNone), (''is_sampled'', VBool False),
           (''encoding'', VStr ''ascii''), (''total_rows'', VInt 3), (''is_chunked'', VBool False)]) \<and>
   map_of (snd (snd (projr (parse_large_file (ex_lib ex_df []) ''data.csv'' ex_csv 10000
       None None)))) ''is_chunked'' = Some (VBool False) \<and>
   map_of (snd (snd (projr (parse_large_file (ex_lib ex_df (replicate 2 (Inr ex_chunk)))
       ''data.csv'' ex_csv 2 None None)))) ''is_chunked'' = Some (VBool True)"
proof -
  have n: "\<not> truthy_int None" by (simp add: truthy_int_def)
  have p: "parse_csv_with_encoding (ex_lib ex_df []) ex_csv (Some ''ascii'')
      = Inr (ex_df, Some ''ascii'')"
    by (simp add: parse_csv_with_encoding_def truthy_str_def ex_lib_def)
  have a: "parse_large_file (ex_lib ex_df []) ''data.csv'' ex_csv 10000 None None =
     Inr (ex_df, ''CSV'',
          [(''chunk_size'', VInt 10000), (''sample_rows'', VNone), (''is_sampled'', VBool False),
           (''encoding'', VStr ''ascii''), (''total_rows'', VInt 3), (''is_chunked'', VBool False)])"
    using parse_large_file_unsampled[OF csv_name n, of "ex_lib ex_df []" ex_csv None 10000]
    by (simp add: ex_count ex_enc p enc_val_def)
  have c: "read_csv_in_chunks (ex_lib ex_df (replicate 2 (Inr ex_chunk))) ex_csv 2 (Some ''ascii'')
      = Inr \<lparr>columns = [''id'', ''a''], rows = [[''0'', ''1''], [''0'', ''1'']]\<rparr>"
    by (simp add: read_csv_in_chunks_def ex_lib_def numeral_2_eq_2 Let_def ex_concat_def
        ex_chunk_def)
  have "\<not> isl (parse_large_file (ex_lib ex_df (replicate 2 (Inr ex_chunk))) ''data.csv''
      ex_csv 2 None None)"
    using parse_large_file_unsampled[OF csv_name n, of "ex_lib ex_df (replicate 2 (Inr ex_chunk))"
        ex_csv None 2]
    by (simp add: ex_count ex_enc c)
  then obtain df ft m where r: "parse_large_file (ex_lib ex_df (replicate 2 (Inr ex_chunk)))
      ''data.csv'' ex_csv 2 None None = Inr (df, ft, m)"
    by (metis sum.collapse(2) prod_cases3)
  from parse_large_file_chunk_decision[OF csv_name n, of "ex_lib ex_df (replicate 2 (Inr ex_chunk))"
      ex_csv None 2] r
  have "map_of m ''is_chunked'' = Some (VBool True)"
    by (simp add: ex_count ex_enc)
  moreover
  from parse_large_file_chunk_decision[OF csv_name n, of "ex_lib ex_df []" ex_csv None 10000] a
  have "map_of (snd (snd (projr (parse_large_file (ex_lib ex_df []) ''data.csv'' ex_csv 10000
       None None)))) ''is_chunked'' = Some (VBool False)"
    by (simp add: ex_count ex_enc)
  ultimately show ?thesis using r a by simp
qed

text \<open>
  Claim C9 says that for every value of \<^verbatim>\<open>sample_rows\<close> only that many rows are parsed,
  the chunking decision is skipped, and the metadata has \<^verbatim>\<open>is_sampled=True\<close> and
  \<^verbatim>\<open>sample_size\<close>. For the value 0 the code does otherwise: \<^verbatim>\<open>if sample_rows:\<close> is
  false, so the rows are estimated and the whole input is parsed, while the metadata,
  built from \<^verbatim>\<open>sample_rows is not None\<close>, still says \<^verbatim>\<open>is_sampled=True\<close>, with no
  \<^verbatim>\<open>sample_size\<close>.
\<close>

theorem sample_rows_zero:
  "parse_large_file (ex_lib ex_df []) ''data.csv'' ex_csv 10000 (Some 0) None =
     Inr (ex_df, ''CSV'',
          [(''chunk_size'', VInt 10000), (''sample_rows'', VInt 0), (''is_sampled'', VBool True),
           (''encoding'', VStr ''ascii''), (''total_rows'', VInt 3), (''is_chunked'', VBool False)])"
proof -
  have n: "\<not> truthy_int (Some 0)" by (simp add: truthy_int_def)
  have p: "parse_csv_with_encoding (ex_lib ex_df []) ex_csv (Some ''ascii'')
      = Inr (ex_df, Some ''ascii'')"
    by (simp add: parse_csv_with_encoding_def truthy_str_def ex_lib_def)
  show ?thesis
    using parse_large_file_unsampled[OF csv_name n, of "ex_lib ex_df []" ex_csv None 10000]
    by (simp add: ex_count ex_enc p enc_val_def)
qed

end
